theory Spec2Isabelle
  imports Main
begin

section \<open>aws-ssm: a shallow embedding of the command-line program\<close>

text \<open>
  The program is the Go package \<^verbatim>\<open>main\<close> with the functions \<^verbatim>\<open>ShowVersion\<close>,
  \<^verbatim>\<open>ShowUsage\<close>, \<^verbatim>\<open>ParseArgs\<close>, \<^verbatim>\<open>GetSecret\<close>, \<^verbatim>\<open>FormatOutput\<close>, \<^verbatim>\<open>NewApp\<close> and
  \<^verbatim>\<open>main\<close>. The sources hold it in three revisions. The latest one, which knows the
  flags \<^verbatim>\<open>--version\<close> and \<^verbatim>\<open>--help\<close> (it follows the build script in \<^verbatim>\<open>build.sh\<close>,
  lines 150 to 331), is the one modelled function by function below. The revision
  before it (lines 23 to 149 there) has the same \<^verbatim>\<open>GetSecret\<close>, \<^verbatim>\<open>FormatOutput\<close> and
  \<^verbatim>\<open>NewApp\<close> and no flags. The first one, \<^verbatim>\<open>main.go\<close>, is a single function; it is
  modelled as \<open>main_go\<close>.

  Everything the Go code does beyond returning a value is explicit here:
  \<^item> Go's \<^verbatim>\<open>string\<close> is \<open>string\<close> (a list of bytes);
  \<^item> a Go \<^verbatim>\<open>error\<close> is a value of the datatype \<open>error\<close>; a pair \<^verbatim>\<open>(T, error)\<close> that a
    function returns is \<open>error + T\<close>, with \<open>Inl\<close> for the non-nil error;
  \<^item> a pointer that may be \<^verbatim>\<open>nil\<close> is an \<open>option\<close>;
  \<^item> standard output, standard error and the calls made to the AWS SDK are the fields of
    the record \<open>world\<close>, which every function with an effect takes and returns;
  \<^item> \<^verbatim>\<open>os.Exit\<close> and a runtime panic end the process: the datatype \<open>outcome\<close> says
    whether a function returned, exited or panicked.
\<close>

subsection \<open>Errors\<close>

text \<open>
  \<^verbatim>\<open>fmt.Errorf\<close> with a format that has no \<^verbatim>\<open>%w\<close> gives a plain error carrying its
  message (\<open>New\<close>); with a trailing \<^verbatim>\<open>%w\<close> it gives an error that wraps its operand
  (\<open>Wrap\<close>, the text before the verb and the wrapped error). \<open>Error\<close> is the method
  \<^verbatim>\<open>err.Error()\<close>, and \<open>Unwrap\<close> is \<^verbatim>\<open>errors.Unwrap\<close>.
\<close>

datatype error = New string | Wrap string error

fun Error :: "error \<Rightarrow> string" where
  "Error (New msg) = msg"
| "Error (Wrap prefix err) = prefix @ Error err"

fun Unwrap :: "error \<Rightarrow> error option" where
  "Unwrap (New msg) = None"
| "Unwrap (Wrap prefix err) = Some err"

subsection \<open>The process and its surroundings\<close>

datatype event = EvLoadDefaultConfig string | EvGetSecretValue string

record world =
  stdout :: string
  stderr :: string
  calls :: "event list"

text \<open>
  How a function ends: it returns a value, it ends the process with \<^verbatim>\<open>os.Exit(code)\<close>,
  or the Go runtime panics (an index out of range, a nil pointer dereference).
  \<open>exit_status\<close> is the status the operating system sees when \<^verbatim>\<open>main\<close> ends that
  way: 0 when \<^verbatim>\<open>main\<close> returns, the code given to \<^verbatim>\<open>os.Exit\<close>, and 2 for a panic
  that nothing recovers.
\<close>

datatype 'a outcome = Return 'a | Exit int | Panic

fun exit_status :: "'a outcome \<Rightarrow> int" where
  "exit_status (Return x) = 0"
| "exit_status (Exit code) = code"
| "exit_status Panic = 2"

definition Print :: "string \<Rightarrow> world \<Rightarrow> world" where
  \<comment> \<open>\<^verbatim>\<open>fmt.Print(s)\<close> and \<^verbatim>\<open>fmt.Printf\<close> once formatted: the bytes go to standard output\<close>
  "Print s w = w\<lparr>stdout := stdout w @ s\<rparr>"

definition Fprint_stderr :: "string \<Rightarrow> world \<Rightarrow> world" where
  \<comment> \<open>\<^verbatim>\<open>fmt.Fprintf(os.Stderr, ...)\<close> once formatted\<close>
  "Fprint_stderr s w = w\<lparr>stderr := stderr w @ s\<rparr>"

subsection \<open>FormatOutput\<close>

text \<open>
  \<^verbatim>\<open>json.Unmarshal\<close> belongs to Go's standard library, not to the program: it is the
  parameter \<open>unmarshal\<close>, which gives the error of the parse (\<open>None\<close> for \<^verbatim>\<open>nil\<close>).
  The decoded value \<^verbatim>\<open>jsonData\<close> is never read.
\<close>

definition FormatOutput :: "(string \<Rightarrow> error option) \<Rightarrow> string \<Rightarrow> string" where
  "FormatOutput unmarshal secretValue =
     (case unmarshal secretValue of
        Some err \<Rightarrow> secretValue
      | None \<Rightarrow> secretValue)"

subsection \<open>Version information and usage text\<close>

text \<open>
  The package variables \<^verbatim>\<open>Version\<close>, \<^verbatim>\<open>GitCommit\<close>, \<^verbatim>\<open>BuildTime\<close> and \<^verbatim>\<open>Maintainer\<close>
  are set by the linker (\<^verbatim>\<open>-ldflags -X\<close>); \<open>build_dev\<close> holds the values written in the
  source.
\<close>

record build =
  Version :: string
  GitCommit :: string
  BuildTime :: string
  Maintainer :: string

definition build_dev :: build where
  "build_dev =
     \<lparr>Version = ''dev'', GitCommit = ''unknown'', BuildTime = ''unknown'',
      Maintainer = ''Nicolas HYPOLITE''\<rparr>"

definition ReplaceAll1 :: "string \<Rightarrow> char \<Rightarrow> char \<Rightarrow> string" where
  \<comment> \<open>\<^verbatim>\<open>strings.ReplaceAll(s, old, new)\<close> where \<^verbatim>\<open>old\<close> and \<^verbatim>\<open>new\<close> are one byte each\<close>
  "ReplaceAll1 s old new = map (\<lambda>c. if c = old then new else c) s"

definition ShowVersion :: "build \<Rightarrow> world \<Rightarrow> world" where
  "ShowVersion b w =
     (let w1 = Print (''aws-ssm version '' @ Version b @ ''\<newline>'') w;
          w2 = (if GitCommit b \<noteq> ''unknown''
                then Print (''Git commit: '' @ GitCommit b @ ''\<newline>'') w1 else w1);
          w3 = (if BuildTime b \<noteq> ''unknown''
                then Print (''Built: '' @ BuildTime b @ ''\<newline>'') w2 else w2)
      in if Maintainer b \<noteq> []
         then let maintainerName = ReplaceAll1 (Maintainer b) (CHR ''_'') (CHR '' '')
              in Print (''Maintainer: '' @ maintainerName @ ''\<newline>'') w3
         else w3)"

definition usage_lines :: "string \<Rightarrow> string list" where
  \<comment> \<open>the formatted operands of the fourteen \<^verbatim>\<open>fmt.Fprintf(os.Stderr, ...)\<close> of \<^verbatim>\<open>ShowUsage\<close>\<close>
  "usage_lines progName =
     [''Usage: '' @ progName @ '' <secret-id> [region]\<newline>'',
      ''       '' @ progName @ '' --version\<newline>'',
      ''       '' @ progName @ '' --help\<newline>'',
      ''\<newline>Arguments:\<newline>'',
      ''  secret-id    AWS Secrets Manager secret ID or ARN\<newline>'',
      ''  region       AWS region (optional, overrides AWS_REGION)\<newline>'',
      ''\<newline>Options:\<newline>'',
      ''  --version    Show version information\<newline>'',
      ''  --help       Show this help message\<newline>'',
      ''\<newline>Environment variables:\<newline>'',
      ''  AWS_REGION: AWS region (can be overridden by second argument)\<newline>'',
      ''  AWS_ACCESS_KEY_ID: AWS access key\<newline>'',
      ''  AWS_SECRET_ACCESS_KEY: AWS secret key\<newline>'',
      ''  AWS_SESSION_TOKEN: Session token (for temporary roles)\<newline>'']"

definition ShowUsage :: "string \<Rightarrow> world \<Rightarrow> world" where
  "ShowUsage progName w = fold Fprint_stderr (usage_lines progName) w"

subsection \<open>ParseArgs\<close>

record Config =
  SecretID :: string
  Region :: string

definition Getenv :: "(string \<times> string) list \<Rightarrow> string \<Rightarrow> string" where
  \<comment> \<open>\<^verbatim>\<open>os.Getenv(key)\<close>: the value, or the empty string when the variable is not set\<close>
  "Getenv environ key = (case map_of environ key of None \<Rightarrow> [] | Some v \<Rightarrow> v)"

text \<open>
  \<open>ParseArgs\<close> reads the build variables (for \<^verbatim>\<open>ShowVersion\<close>), the environment and
  the argument vector. Every index is guarded by the length test before it, as in the
  source. The two flag branches end the process with \<^verbatim>\<open>os.Exit(0)\<close>.
\<close>

definition ParseArgs ::
  "build \<Rightarrow> (string \<times> string) list \<Rightarrow> string list \<Rightarrow> world
     \<Rightarrow> (error + Config) outcome \<times> world" where
  "ParseArgs b environ args w =
     (if length args < 2 then (Return (Inl (New ''insufficient arguments'')), w)
      else if args ! 1 = ''--version'' \<or> args ! 1 = ''-v'' then (Exit 0, ShowVersion b w)
      else if args ! 1 = ''--help'' \<or> args ! 1 = ''-h'' then (Exit 0, ShowUsage (args ! 0) w)
      else
        let secretID = args ! 1;
            region = Getenv environ ''AWS_REGION'';
            region = (if length args > 2 then args ! 2 else region)
        in if region = []
           then (Return (Inl (New
                  ''AWS region must be specified either via AWS_REGION environment variable or as second argument'')), w)
           else (Return (Inr \<lparr>SecretID = secretID, Region = region\<rparr>), w))"

subsection \<open>The client and GetSecret\<close>

text \<open>
  Of \<^verbatim>\<open>secretsmanager.GetSecretValueInput\<close> and \<^verbatim>\<open>GetSecretValueOutput\<close> the program sets
  and reads one field each, both of type \<^verbatim>\<open>*string\<close>. The interface
  \<^verbatim>\<open>SecretsManagerClient\<close> has the one method \<^verbatim>\<open>GetSecretValue\<close>, which returns
  \<^verbatim>\<open>(*GetSecretValueOutput, error)\<close>: a client is that method, and both components of
  its result may be \<^verbatim>\<open>nil\<close>.
\<close>

record GetSecretValueInput =
  SecretId :: "string option"

record GetSecretValueOutput =
  SecretString :: "string option"

type_synonym SecretsManagerClient =
  "GetSecretValueInput \<Rightarrow> GetSecretValueOutput option \<times> error option"

record App =
  Client :: SecretsManagerClient
  Config :: Config

text \<open>
  \<open>GetSecret\<close> calls the client once (the call is recorded in \<open>calls\<close>). With a
  \<^verbatim>\<open>nil\<close> error and a \<^verbatim>\<open>nil\<close> result, reading \<^verbatim>\<open>result.SecretString\<close> dereferences a nil
  pointer: the runtime panics.
\<close>

definition GetSecret :: "App \<Rightarrow> world \<Rightarrow> (error + string) outcome \<times> world" where
  "GetSecret app w =
     (let input = \<lparr>SecretId = Some (SecretID (Config app))\<rparr>;
          (result, err) = Client app input;
          w' = w\<lparr>calls := calls w @ [EvGetSecretValue (SecretID (Config app))]\<rparr>
      in case err of
           Some e \<Rightarrow> (Return (Inl (Wrap ''failed to get secret value: '' e)), w')
         | None \<Rightarrow>
             (case result of
                None \<Rightarrow> (Panic, w')
              | Some out \<Rightarrow>
                  (case SecretString out of
                     None \<Rightarrow> (Return (Inl (New ''secret does not contain a string value'')), w')
                   | Some s \<Rightarrow> (Return (Inr s), w'))))"

subsection \<open>NewApp\<close>

text \<open>
  What the process finds around it: the environment variables, the AWS SDK
  (\<^verbatim>\<open>config.LoadDefaultConfig\<close> with \<^verbatim>\<open>config.WithRegion(region)\<close>, which gives a
  configuration of type \<open>'c\<close> or an error, and \<^verbatim>\<open>secretsmanager.NewFromConfig\<close>),
  \<^verbatim>\<open>json.Unmarshal\<close>, and the date and time that the standard logger writes before a
  message.
\<close>

record 'c host =
  Environ :: "(string \<times> string) list"
  LoadDefaultConfig :: "string \<Rightarrow> error + 'c"
  NewFromConfig :: "'c \<Rightarrow> SecretsManagerClient"
  Unmarshal :: "string \<Rightarrow> error option"
  log_header :: string

definition NewApp :: "'c host \<Rightarrow> Config \<Rightarrow> world \<Rightarrow> (error + App) \<times> world" where
  "NewApp h cfg w =
     (let w' = w\<lparr>calls := calls w @ [EvLoadDefaultConfig (Region cfg)]\<rparr>
      in case LoadDefaultConfig h (Region cfg) of
           Inl err \<Rightarrow> (Inl (Wrap ''failed to load AWS config: '' err), w')
         | Inr awsCfg \<Rightarrow> (Inr \<lparr>Client = NewFromConfig h awsCfg, Config = cfg\<rparr>, w'))"

subsection \<open>main\<close>

text \<open>
  \<^verbatim>\<open>log.Fatalf\<close> writes the logger's header, the message and a newline (unless the
  message ends with one) to standard error, then calls \<^verbatim>\<open>os.Exit(1)\<close>.
\<close>

definition Fatalf :: "string \<Rightarrow> string \<Rightarrow> world \<Rightarrow> unit outcome \<times> world" where
  "Fatalf header msg w =
     (Exit 1,
      Fprint_stderr
        (header @ msg @ (if msg = [] \<or> last msg \<noteq> CHR ''\<newline>'' then ''\<newline>'' else [])) w)"

text \<open>
  \<open>main\<close> takes \<^verbatim>\<open>os.Args\<close> as \<open>args\<close>. On the error \<^verbatim>\<open>insufficient arguments\<close> it
  reads \<^verbatim>\<open>os.Args[0]\<close>, which panics (index out of range) when the vector is empty.
\<close>

definition main :: "build \<Rightarrow> 'c host \<Rightarrow> string list \<Rightarrow> world \<Rightarrow> unit outcome \<times> world" where
  "main b h args w =
     (case ParseArgs b (Environ h) args w of
        (Exit code, w1) \<Rightarrow> (Exit code, w1)
      | (Panic, w1) \<Rightarrow> (Panic, w1)
      | (Return (Inl err), w1) \<Rightarrow>
          (if Error err = ''insufficient arguments''
           then (if args = [] then (Panic, w1) else (Exit 1, ShowUsage (args ! 0) w1))
           else (Exit 1, Fprint_stderr (''Error: '' @ Error err @ ''\<newline>'') w1))
      | (Return (Inr cfg), w1) \<Rightarrow>
          (case NewApp h cfg w1 of
             (Inl err, w2) \<Rightarrow>
               Fatalf (log_header h) (''Failed to initialize application: '' @ Error err) w2
           | (Inr app, w2) \<Rightarrow>
               (case GetSecret app w2 of
                  (Exit code, w3) \<Rightarrow> (Exit code, w3)
                | (Panic, w3) \<Rightarrow> (Panic, w3)
                | (Return (Inl err), w3) \<Rightarrow>
                    Fatalf (log_header h) (''Failed to get secret: '' @ Error err) w3
                | (Return (Inr secretValue), w3) \<Rightarrow>
                    (let output = FormatOutput (Unmarshal h) secretValue
                     in (Return (), Print output w3)))))"

subsection \<open>The stand-alone main of main.go\<close>

text \<open>
  The file \<^verbatim>\<open>main.go\<close> holds the program before it was split into functions: one
  \<^verbatim>\<open>main\<close> that knows no flags, reports every failure after the argument count with
  \<^verbatim>\<open>log.Fatal\<close>, and prints the secret in both branches of the JSON test. It is
  \<open>main_go\<close> here; \<^verbatim>\<open>os.Args[0]\<close> in its usage message panics on an empty vector.
\<close>

definition main_go :: "'c host \<Rightarrow> string list \<Rightarrow> world \<Rightarrow> unit outcome \<times> world" where
  "main_go h args w =
     (if length args < 2
      then (if args = [] then (Panic, w)
            else (Exit 1,
                  fold Fprint_stderr
                    [''Usage: '' @ args ! 0 @ '' <secret-id> [region]\<newline>'',
                     ''Environment variables:\<newline>'',
                     ''  AWS_REGION: AWS region (can be overridden by second argument)\<newline>'',
                     ''  AWS_ACCESS_KEY_ID: AWS access key\<newline>'',
                     ''  AWS_SECRET_ACCESS_KEY: AWS secret key\<newline>''] w))
      else
        let secretID = args ! 1;
            region = Getenv (Environ h) ''AWS_REGION'';
            region = (if length args > 2 then args ! 2 else region)
        in if region = []
           then Fatalf (log_header h)
                  ''AWS region must be specified either via AWS_REGION environment variable or as second argument'' w
           else
             let w1 = w\<lparr>calls := calls w @ [EvLoadDefaultConfig region]\<rparr>
             in case LoadDefaultConfig h region of
                  Inl err \<Rightarrow> Fatalf (log_header h) (''Failed to load AWS config: '' @ Error err) w1
                | Inr cfg \<Rightarrow>
                    let client = NewFromConfig h cfg;
                        input = \<lparr>SecretId = Some secretID\<rparr>;
                        (result, err) = client input;
                        w2 = w1\<lparr>calls := calls w1 @ [EvGetSecretValue secretID]\<rparr>
                    in case err of
                         Some e \<Rightarrow>
                           Fatalf (log_header h) (''Failed to get secret value: '' @ Error e) w2
                       | None \<Rightarrow>
                           (case result of
                              None \<Rightarrow> (Panic, w2)
                            | Some out \<Rightarrow>
                                (case SecretString out of
                                   None \<Rightarrow>
                                     Fatalf (log_header h) ''Secret does not contain a string value'' w2
                                 | Some s \<Rightarrow>
                                     (case Unmarshal h s of
                                        Some err \<Rightarrow> (Return (), Print s w2)
                                      | None \<Rightarrow> (Return (), Print s w2)))))"

subsection \<open>Test doubles\<close>

text \<open>
  The doubles of the test files: a process that has written nothing yet, the mock client
  of \<^verbatim>\<open>main_test.go\<close> set up to return a string value, an output with a \<^verbatim>\<open>nil\<close>
  \<^verbatim>\<open>SecretString\<close>, or an error with a \<^verbatim>\<open>nil\<close> output, and a host whose SDK hands out
  the given client for every region. \<open>unmarshal_fails\<close> stands for a JSON parse that
  reports an error.
\<close>

definition world0 :: world where
  "world0 = \<lparr>stdout = [], stderr = [], calls = []\<rparr>"

definition mock_value :: "string \<Rightarrow> SecretsManagerClient" where
  "mock_value v input = (Some \<lparr>SecretString = Some v\<rparr>, None)"

definition mock_nil_string :: SecretsManagerClient where
  "mock_nil_string input = (Some \<lparr>SecretString = None\<rparr>, None)"

definition mock_error :: "error \<Rightarrow> SecretsManagerClient" where
  "mock_error e input = (None, Some e)"

definition unmarshal_fails :: "string \<Rightarrow> error option" where
  "unmarshal_fails s = Some (New ''invalid character'')"

definition mock_host :: "(string \<times> string) list \<Rightarrow> SecretsManagerClient \<Rightarrow> unit host" where
  "mock_host environ client =
     \<lparr>Environ = environ,
      LoadDefaultConfig = (\<lambda>region. Inr ()),
      NewFromConfig = (\<lambda>awsCfg. client),
      Unmarshal = unmarshal_fails,
      log_header = ''2025/01/01 00:00:00 ''\<rparr>"

section \<open>Basic facts\<close>

subsection \<open>What the output functions write\<close>

lemma Print_fields [simp]:
  "stdout (Print s w) = stdout w @ s"
  "stderr (Print s w) = stderr w"
  "calls (Print s w) = calls w"
  by (simp_all add: Print_def)

lemma Fprint_stderr_fields [simp]:
  "stdout (Fprint_stderr s w) = stdout w"
  "stderr (Fprint_stderr s w) = stderr w @ s"
  "calls (Fprint_stderr s w) = calls w"
  by (simp_all add: Fprint_stderr_def)

lemma fold_Fprint_stderr:
  "stdout (fold Fprint_stderr xs w) = stdout w \<and>
   stderr (fold Fprint_stderr xs w) = stderr w @ concat xs \<and>
   calls (fold Fprint_stderr xs w) = calls w"
  by (induction xs arbitrary: w) simp_all

lemma ShowUsage_fields [simp]:
  "stdout (ShowUsage p w) = stdout w"
  "stderr (ShowUsage p w) = stderr w @ concat (usage_lines p)"
  "calls (ShowUsage p w) = calls w"
  by (simp_all add: ShowUsage_def fold_Fprint_stderr)

lemma ShowVersion_fields [simp]:
  "stderr (ShowVersion b w) = stderr w"
  "calls (ShowVersion b w) = calls w"
  "stdout (ShowVersion b w) =
     stdout w @ ''aws-ssm version '' @ Version b @ ''\<newline>''
       @ (if GitCommit b \<noteq> ''unknown'' then ''Git commit: '' @ GitCommit b @ ''\<newline>'' else [])
       @ (if BuildTime b \<noteq> ''unknown'' then ''Built: '' @ BuildTime b @ ''\<newline>'' else [])
       @ (if Maintainer b \<noteq> []
          then ''Maintainer: '' @ ReplaceAll1 (Maintainer b) (CHR ''_'') (CHR '' '') @ ''\<newline>''
          else [])"
  by (simp_all add: ShowVersion_def Let_def)

lemma Fatalf_fields [simp]:
  "fst (Fatalf header msg w) = Exit 1"
  "stdout (snd (Fatalf header msg w)) = stdout w"
  "calls (snd (Fatalf header msg w)) = calls w"
  by (simp_all add: Fatalf_def)

lemma concat_usage_lines:
  "concat (usage_lines prog) =
     ''Usage: '' @ prog @ '' <secret-id> [region]\<newline>''
       @ ''       '' @ prog @ '' --version\<newline>''
       @ ''       '' @ prog @ '' --help\<newline>''
       @ ''\<newline>Arguments:\<newline>''
       @ ''  secret-id    AWS Secrets Manager secret ID or ARN\<newline>''
       @ ''  region       AWS region (optional, overrides AWS_REGION)\<newline>''
       @ ''\<newline>Options:\<newline>''
       @ ''  --version    Show version information\<newline>''
       @ ''  --help       Show this help message\<newline>''
       @ ''\<newline>Environment variables:\<newline>''
       @ ''  AWS_REGION: AWS region (can be overridden by second argument)\<newline>''
       @ ''  AWS_ACCESS_KEY_ID: AWS access key\<newline>''
       @ ''  AWS_SECRET_ACCESS_KEY: AWS secret key\<newline>''
       @ ''  AWS_SESSION_TOKEN: Session token (for temporary roles)\<newline>''"
  by (simp add: usage_lines_def)

subsection \<open>ParseArgs, case by case\<close>

lemma ParseArgs_short:
  "length args < 2 \<Longrightarrow>
   ParseArgs b environ args w = (Return (Inl (New ''insufficient arguments'')), w)"
  by (simp add: ParseArgs_def)

lemma ParseArgs_Return:
  "ParseArgs b environ args w = (Return r, w') \<Longrightarrow> w' = w"
  by (auto simp: ParseArgs_def Let_def split: if_splits)


lemma ParseArgs_nonflag:
  assumes "\<not> (2 \<le> length args \<and> args ! 1 \<in> {''--version'', ''-v'', ''--help'', ''-h''})"
  shows "\<exists>r. ParseArgs b environ args w = (Return r, w)"
  using assms by (auto simp: ParseArgs_def Let_def)

subsection \<open>GetSecret and NewApp\<close>

lemma GetSecret_fields:
  "calls (snd (GetSecret app w)) = calls w @ [EvGetSecretValue (SecretID (Config app))]"
  "stdout (snd (GetSecret app w)) = stdout w"
  "stderr (snd (GetSecret app w)) = stderr w"
  by (simp_all add: GetSecret_def Let_def split: prod.split option.split)

lemma GetSecret_result:
  "fst (GetSecret app w) =
     (case Client app \<lparr>SecretId = Some (SecretID (Config app))\<rparr> of
        (result, Some e) \<Rightarrow> Return (Inl (Wrap ''failed to get secret value: '' e))
      | (None, None) \<Rightarrow> Panic
      | (Some out, None) \<Rightarrow>
          (case SecretString out of
             None \<Rightarrow> Return (Inl (New ''secret does not contain a string value''))
           | Some s \<Rightarrow> Return (Inr s)))"
  by (simp add: GetSecret_def Let_def split: prod.split option.split)

lemma NewApp_fields:
  "stdout (snd (NewApp h cfg w)) = stdout w"
  "stderr (snd (NewApp h cfg w)) = stderr w"
  "calls (snd (NewApp h cfg w)) = calls w @ [EvLoadDefaultConfig (Region cfg)]"
  by (simp_all add: NewApp_def Let_def split: sum.split)

lemma NewApp_result:
  "fst (NewApp h cfg w) =
     (case LoadDefaultConfig h (Region cfg) of
        Inl err \<Rightarrow> Inl (Wrap ''failed to load AWS config: '' err)
      | Inr awsCfg \<Rightarrow> Inr \<lparr>Client = NewFromConfig h awsCfg, Config = cfg\<rparr>)"
  by (simp add: NewApp_def Let_def split: sum.split)

subsection \<open>main, case by case\<close>

lemma main_short:
  "length args < 2 \<Longrightarrow>
   main b h args w = (if args = [] then (Panic, w) else (Exit 1, ShowUsage (args ! 0) w))"
  by (simp add: main_def ParseArgs_short)

lemma main_version:
  assumes "2 \<le> length args" and "args ! 1 = ''--version'' \<or> args ! 1 = ''-v''"
  shows "main b h args w = (Exit 0, ShowVersion b w)"
  using assms by (auto simp: main_def ParseArgs_def)

lemma main_help:
  assumes "2 \<le> length args" and "args ! 1 = ''--help'' \<or> args ! 1 = ''-h''"
  shows "main b h args w = (Exit 0, ShowUsage (args ! 0) w)"
  using assms by (auto simp: main_def ParseArgs_def)

lemma main_region_error:
  assumes "ParseArgs b (Environ h) args w = (Return (Inl err), w)" and "2 \<le> length args"
  shows "main b h args w = (Exit 1, Fprint_stderr (''Error: '' @ Error err @ ''\<newline>'') w)"
proof -
  from assms have "err = New
      ''AWS region must be specified either via AWS_REGION environment variable or as second argument''"
    by (auto simp: ParseArgs_def Let_def split: if_splits)
  with assms(1) show ?thesis by (simp add: main_def)
qed

text \<open>
  Once \<open>ParseArgs\<close> has returned a configuration, \<open>main\<close> is decided by what the SDK
  answers: the error of \<^verbatim>\<open>LoadDefaultConfig\<close>, or the pair the client returns.
\<close>

lemma main_parsed:
  assumes "ParseArgs b (Environ h) args w = (Return (Inr cfg), w)"
  shows "main b h args w =
     (case LoadDefaultConfig h (Region cfg) of
        Inl e \<Rightarrow>
          Fatalf (log_header h)
            (''Failed to initialize application: '' @ ''failed to load AWS config: '' @ Error e)
            (w\<lparr>calls := calls w @ [EvLoadDefaultConfig (Region cfg)]\<rparr>)
      | Inr awsCfg \<Rightarrow>
          (let w3 = w\<lparr>calls := calls w @ [EvLoadDefaultConfig (Region cfg),
                                            EvGetSecretValue (SecretID cfg)]\<rparr>
           in case NewFromConfig h awsCfg \<lparr>SecretId = Some (SecretID cfg)\<rparr> of
                (result, Some e) \<Rightarrow>
                  Fatalf (log_header h)
                    (''Failed to get secret: '' @ ''failed to get secret value: '' @ Error e) w3
              | (None, None) \<Rightarrow> (Panic, w3)
              | (Some out, None) \<Rightarrow>
                  (case SecretString out of
                     None \<Rightarrow>
                       Fatalf (log_header h)
                         (''Failed to get secret: '' @ ''secret does not contain a string value'') w3
                   | Some V \<Rightarrow> (Return (), w3\<lparr>stdout := stdout w @ V\<rparr>))))"
  using assms
  by (simp add: main_def NewApp_def GetSecret_def Let_def FormatOutput_def Print_def
      split: option.split sum.split prod.split)


lemma main_success:
  assumes "fst (ParseArgs b (Environ h) args w) = Return (Inr cfg)"
      and "LoadDefaultConfig h (Region cfg) = Inr awsCfg"
      and "NewFromConfig h awsCfg \<lparr>SecretId = Some (SecretID cfg)\<rparr> = (Some out, None)"
      and "SecretString out = Some V"
  shows "main b h args w =
           (Return (),
            w\<lparr>calls := calls w @ [EvLoadDefaultConfig (Region cfg), EvGetSecretValue (SecretID cfg)],
              stdout := stdout w @ V\<rparr>)"
proof -
  obtain w' where p: "ParseArgs b (Environ h) args w = (Return (Inr cfg), w')"
    using assms(1) by (cases "ParseArgs b (Environ h) args w") simp
  then have "w' = w" by (rule ParseArgs_Return)
  with p have "ParseArgs b (Environ h) args w = (Return (Inr cfg), w)" by simp
  from main_parsed [OF this] assms(2-4) show ?thesis by (simp add: Let_def)
qed

lemma main_fetch_failed:
  assumes "fst (ParseArgs b (Environ h) args w) = Return (Inr cfg)"
      and "LoadDefaultConfig h (Region cfg) = Inr awsCfg"
      and "NewFromConfig h awsCfg \<lparr>SecretId = Some (SecretID cfg)\<rparr> = (result, err)"
      and "err \<noteq> None \<or> (\<exists>out. result = Some out \<and> SecretString out = None)"
  shows "exit_status (fst (main b h args w)) = 1 \<and> stdout (snd (main b h args w)) = stdout w"
proof -
  obtain w' where p: "ParseArgs b (Environ h) args w = (Return (Inr cfg), w')"
    using assms(1) by (cases "ParseArgs b (Environ h) args w") simp
  then have "w' = w" by (rule ParseArgs_Return)
  with p have q: "ParseArgs b (Environ h) args w = (Return (Inr cfg), w)" by simp
  show ?thesis
    unfolding main_parsed [OF q]
    using assms(2-4) by (auto simp: Let_def split: option.split)
qed

lemma main_dichotomy:
  assumes "\<not> (2 \<le> length args \<and> args ! 1 \<in> {''--version'', ''-v'', ''--help'', ''-h''})"
  shows "(exit_status (fst (main b h args w)) = 0 \<and>
          (\<exists>cfg awsCfg out V.
             fst (ParseArgs b (Environ h) args w) = Return (Inr cfg) \<and>
             LoadDefaultConfig h (Region cfg) = Inr awsCfg \<and>
             NewFromConfig h awsCfg \<lparr>SecretId = Some (SecretID cfg)\<rparr> = (Some out, None) \<and>
             SecretString out = Some V \<and>
             stdout (snd (main b h args w)) = stdout w @ V))
       \<or> (exit_status (fst (main b h args w)) \<noteq> 0 \<and>
          stdout (snd (main b h args w)) = stdout w)"
proof -
  obtain r where p: "ParseArgs b (Environ h) args w = (Return r, w)"
    using ParseArgs_nonflag [OF assms] by blast
  show ?thesis
  proof (cases r)
    case (Inl err)
    show ?thesis
    proof (cases "length args < 2")
      case True
      then show ?thesis by (simp add: main_short)
    next
      case False
      with p Inl have
        "main b h args w = (Exit 1, Fprint_stderr (''Error: '' @ Error err @ ''\<newline>'') w)"
        by (intro main_region_error) simp_all
      then show ?thesis by simp
    qed
  next
    case (Inr cfg)
    with p have q: "ParseArgs b (Environ h) args w = (Return (Inr cfg), w)" by simp
    show ?thesis
      unfolding main_parsed [OF q] q
      by (simp add: Let_def split: sum.split prod.split option.split)
  qed
qed


subsection \<open>The stand-alone main and the refactored one\<close>

text \<open>
  On every argument vector whose second token is not a flag, \<open>main_go\<close> and \<open>main\<close>
  end with the same status, the same standard output and the same calls to the SDK;
  they differ in what they write to standard error.
\<close>

lemma main_go_agrees:
  assumes "\<not> (2 \<le> length args \<and> args ! 1 \<in> {''--version'', ''-v'', ''--help'', ''-h''})"
  shows "exit_status (fst (main_go h args w)) = exit_status (fst (main b h args w)) \<and>
         stdout (snd (main_go h args w)) = stdout (snd (main b h args w)) \<and>
         calls (snd (main_go h args w)) = calls (snd (main b h args w))"
proof (cases "length args < 2")
  case True
  then show ?thesis
    by (simp add: main_short main_go_def fold_Fprint_stderr)
next
  case False
  show ?thesis
  proof (cases "(if 2 < length args then args ! 2 else Getenv (Environ h) ''AWS_REGION'') = []")
    case True
    with False assms have p: "ParseArgs b (Environ h) args w =
      (Return (Inl (New
         ''AWS region must be specified either via AWS_REGION environment variable or as second argument'')), w)"
      by (auto simp: ParseArgs_def Let_def)
    from False have "2 \<le> length args" by simp
    from main_region_error [OF p this] True False show ?thesis
      by (simp add: main_go_def Let_def)
  next
    case r: False
    with False assms have p: "ParseArgs b (Environ h) args w =
      (Return (Inr \<lparr>SecretID = args ! 1,
         Region = (if 2 < length args then args ! 2 else Getenv (Environ h) ''AWS_REGION'')\<rparr>), w)"
      by (auto simp: ParseArgs_def Let_def)
    show ?thesis
      unfolding main_parsed [OF p]
      using r False
      by (simp add: main_go_def Let_def Print_def split: sum.split prod.split option.split)
  qed
qed

lemma main_go_short:
  "main_go h [prog] w =
     (Exit 1,
      w\<lparr>stderr := stderr w @ ''Usage: '' @ prog @ '' <secret-id> [region]\<newline>''
          @ ''Environment variables:\<newline>''
          @ ''  AWS_REGION: AWS region (can be overridden by second argument)\<newline>''
          @ ''  AWS_ACCESS_KEY_ID: AWS access key\<newline>''
          @ ''  AWS_SECRET_ACCESS_KEY: AWS secret key\<newline>''\<rparr>)"
  by (simp add: main_go_def Fprint_stderr_def)

section \<open>Properties\<close>

text \<open>
  C1.\<open>FormatOutput\<close> is the identity on every string, whatever the JSON parse says
  about it: valid JSON, malformed JSON, the empty string and plain text all come back
  unchanged.
\<close>

theorem FormatOutput_identity: "FormatOutput unmarshal x = x"
  by (simp add: FormatOutput_def split: option.split)

text \<open>
  C2 (as amended). For every argument vector \<open>[prog, secretId, region]\<close> or
  \<open>[prog, secretId]\<close> whose \<open>secretId\<close> is none of \<^verbatim>\<open>--version\<close>, \<^verbatim>\<open>-v\<close>, \<^verbatim>\<open>--help\<close>,
  \<^verbatim>\<open>-h\<close>, with a non-empty region given as the third token or, when there is no third
  token, as the value of \<^verbatim>\<open>AWS_REGION\<close>, \<open>ParseArgs\<close> returns the configuration of
  \<open>secretId\<close> and \<open>region\<close> and writes nothing. The first part holds for every
  environment: a region argument wins over \<^verbatim>\<open>AWS_REGION\<close>.
\<close>

theorem ParseArgs_config:
  assumes "secretId \<notin> {''--version'', ''-v'', ''--help'', ''-h''}" and "region \<noteq> []"
  shows "ParseArgs b environ [prog, secretId, region] w =
           (Return (Inr \<lparr>SecretID = secretId, Region = region\<rparr>), w) \<and>
         (map_of environ ''AWS_REGION'' = Some region \<longrightarrow>
          ParseArgs b environ [prog, secretId] w =
            (Return (Inr \<lparr>SecretID = secretId, Region = region\<rparr>), w))"
  using assms by (simp add: ParseArgs_def Getenv_def)

theorem ParseArgs_config_witness:
  "''my-secret'' \<notin> {''--version'', ''-v'', ''--help'', ''-h''} \<and> ''eu-west-1'' \<noteq> [] \<and>
   ParseArgs build_dev [(''AWS_REGION'', ''us-east-1'')]
     [''aws-ssm'', ''my-secret'', ''eu-west-1''] world0 =
     (Return (Inr \<lparr>SecretID = ''my-secret'', Region = ''eu-west-1''\<rparr>), world0) \<and>
   map_of [(''AWS_REGION'', ''eu-west-1'')] ''AWS_REGION'' = Some ''eu-west-1'' \<and>
   ParseArgs build_dev [(''AWS_REGION'', ''eu-west-1'')] [''aws-ssm'', ''my-secret''] world0 =
     (Return (Inr \<lparr>SecretID = ''my-secret'', Region = ''eu-west-1''\<rparr>), world0)"
  using ParseArgs_config [of "''my-secret''" "''eu-west-1''" build_dev
      "[(''AWS_REGION'', ''us-east-1'')]" "''aws-ssm''" world0]
    ParseArgs_config [of "''my-secret''" "''eu-west-1''" build_dev
      "[(''AWS_REGION'', ''eu-west-1'')]" "''aws-ssm''" world0]
  by simp

text \<open>
  Without the condition on \<open>secretId\<close> the statement fails: with \<^verbatim>\<open>--version\<close> in the
  place of the secret identifier and a region argument, \<open>ParseArgs\<close> prints the
  version and ends the process with status 0; it returns no configuration.
\<close>

theorem ParseArgs_config_counterexample:
  "fst (ParseArgs build_dev [(''AWS_REGION'', ''us-east-1'')]
          [''aws-ssm'', ''--version'', ''eu-west-1''] world0) = Exit 0 \<and>
   ParseArgs build_dev [(''AWS_REGION'', ''us-east-1'')]
     [''aws-ssm'', ''--version'', ''eu-west-1''] world0 \<noteq>
     (Return (Inr \<lparr>SecretID = ''--version'', Region = ''eu-west-1''\<rparr>), world0)"
  by (simp add: ParseArgs_def)

text \<open>
  C3. For every argument vector with fewer than two tokens, \<open>ParseArgs\<close> fails with the
  error \<^verbatim>\<open>insufficient arguments\<close>, and the process ends with a non-zero status, having
  written nothing to standard output and made no call to the SDK. When the vector is the
  program name alone, the status is 1 and the usage text of \<^verbatim>\<open>ShowUsage\<close>, which starts
  with \<^verbatim>\<open>Usage: prog <secret-id> [region]\<close>, is what standard error receives. (On the
  empty vector, which has no program name, \<^verbatim>\<open>os.Args[0]\<close> panics before anything is
  written; the status is then 2.)
\<close>

theorem insufficient_arguments_usage:
  assumes "length args < 2"
  shows "ParseArgs b environ args w = (Return (Inl (New ''insufficient arguments'')), w) \<and>
         exit_status (fst (main b h args w)) \<noteq> 0 \<and>
         stdout (snd (main b h args w)) = stdout w \<and>
         calls (snd (main b h args w)) = calls w \<and>
         (\<forall>prog. args = [prog] \<longrightarrow>
            main b h args w = (Exit 1, ShowUsage prog w) \<and>
            stderr (snd (main b h args w)) = stderr w @ concat (usage_lines prog) \<and>
            hd (usage_lines prog) = ''Usage: '' @ prog @ '' <secret-id> [region]\<newline>'')"
  using assms by (simp add: ParseArgs_short main_short usage_lines_def)

theorem insufficient_arguments_usage_witness:
  "length [''aws-ssm''] < 2 \<and>
   ParseArgs build_dev [] [''aws-ssm''] world0 =
     (Return (Inl (New ''insufficient arguments'')), world0) \<and>
   main build_dev (mock_host [] (mock_value ''my-secret-value'')) [''aws-ssm''] world0 =
     (Exit 1, ShowUsage ''aws-ssm'' world0) \<and>
   stdout (snd (main build_dev (mock_host [] (mock_value ''my-secret-value''))
                  [''aws-ssm''] world0)) = [] \<and>
   calls (snd (main build_dev (mock_host [] (mock_value ''my-secret-value''))
                 [''aws-ssm''] world0)) = [] \<and>
   stderr (snd (main build_dev (mock_host [] (mock_value ''my-secret-value''))
                  [''aws-ssm''] world0)) = concat (usage_lines ''aws-ssm'')"
  using insufficient_arguments_usage [of "[''aws-ssm'']" build_dev "[]" world0
      "mock_host [] (mock_value ''my-secret-value'')"]
  by (simp add: world0_def)

text \<open>
  C4 (as amended). For every argument vector \<open>[prog, secretId]\<close> whose \<open>secretId\<close> is
  none of \<^verbatim>\<open>--version\<close>, \<^verbatim>\<open>-v\<close>, \<^verbatim>\<open>--help\<close>, \<^verbatim>\<open>-h\<close>, with \<^verbatim>\<open>AWS_REGION\<close> unset or
  empty, \<open>ParseArgs\<close> fails with the error that says the region must be given by the
  environment variable or by the second argument.
\<close>

theorem ParseArgs_region_required:
  assumes "secretId \<notin> {''--version'', ''-v'', ''--help'', ''-h''}"
      and "map_of environ ''AWS_REGION'' = None \<or> map_of environ ''AWS_REGION'' = Some []"
  shows "ParseArgs b environ [prog, secretId] w =
           (Return (Inl (New
              ''AWS region must be specified either via AWS_REGION environment variable or as second argument'')), w)"
  using assms by (auto simp: ParseArgs_def Getenv_def)

theorem ParseArgs_region_required_witness:
  "''my-secret'' \<notin> {''--version'', ''-v'', ''--help'', ''-h''} \<and>
   map_of [(''AWS_REGION'', [])] ''AWS_REGION'' = Some [] \<and>
   ParseArgs build_dev [(''AWS_REGION'', [])] [''aws-ssm'', ''my-secret''] world0 =
     (Return (Inl (New
        ''AWS region must be specified either via AWS_REGION environment variable or as second argument'')), world0) \<and>
   map_of ([] :: (string \<times> string) list) ''AWS_REGION'' = None \<and>
   ParseArgs build_dev [] [''aws-ssm'', ''my-secret''] world0 =
     (Return (Inl (New
        ''AWS region must be specified either via AWS_REGION environment variable or as second argument'')), world0)"
  using ParseArgs_region_required [of "''my-secret''" "[(''AWS_REGION'', [])]" build_dev
      "''aws-ssm''" world0]
    ParseArgs_region_required [of "''my-secret''" "[]" build_dev "''aws-ssm''" world0]
  by simp

text \<open>
  Without the condition on \<open>secretId\<close> the statement fails: on \<^verbatim>\<open>aws-ssm --help\<close> with
  no region anywhere, \<open>ParseArgs\<close> prints the usage text and ends the process with
  status 0; it reports no error.
\<close>

theorem ParseArgs_region_required_counterexample:
  "ParseArgs build_dev [] [''aws-ssm'', ''--help''] world0 =
     (Exit 0, ShowUsage ''aws-ssm'' world0) \<and>
   fst (ParseArgs build_dev [] [''aws-ssm'', ''--help''] world0) \<noteq>
     Return (Inl (New
        ''AWS region must be specified either via AWS_REGION environment variable or as second argument''))"
  by (simp add: ParseArgs_def)

text \<open>
  C5. When the token after the program name is \<^verbatim>\<open>--version\<close> or \<^verbatim>\<open>-v\<close>, the process
  writes the version message to standard output (the version, then the commit and the
  build time unless they are \<^verbatim>\<open>unknown\<close>, then the maintainer, with underscores turned
  into spaces, unless it is empty) and ends with status 0; when it is \<^verbatim>\<open>--help\<close> or
  \<^verbatim>\<open>-h\<close>, the process writes the usage text, given here byte by byte, to standard
  error and ends with status 0. In both cases no call to the SDK is made, whatever
  follows the flag.
\<close>

theorem informational_flags_exit_0:
  assumes "args = prog # flag # rest"
  shows "(flag = ''--version'' \<or> flag = ''-v'' \<longrightarrow>
            main b h args w = (Exit 0, ShowVersion b w) \<and>
            exit_status (fst (main b h args w)) = 0 \<and>
            stdout (snd (main b h args w)) =
              stdout w @ ''aws-ssm version '' @ Version b @ ''\<newline>''
                @ (if GitCommit b \<noteq> ''unknown''
                   then ''Git commit: '' @ GitCommit b @ ''\<newline>'' else [])
                @ (if BuildTime b \<noteq> ''unknown''
                   then ''Built: '' @ BuildTime b @ ''\<newline>'' else [])
                @ (if Maintainer b \<noteq> []
                   then ''Maintainer: ''
                          @ map (\<lambda>c. if c = CHR ''_'' then CHR '' '' else c) (Maintainer b)
                          @ ''\<newline>''
                   else []) \<and>
            stderr (snd (main b h args w)) = stderr w \<and>
            calls (snd (main b h args w)) = calls w) \<and>
         (flag = ''--help'' \<or> flag = ''-h'' \<longrightarrow>
            main b h args w = (Exit 0, ShowUsage prog w) \<and>
            exit_status (fst (main b h args w)) = 0 \<and>
            stdout (snd (main b h args w)) = stdout w \<and>
            stderr (snd (main b h args w)) =
              stderr w @ ''Usage: '' @ prog @ '' <secret-id> [region]\<newline>''
                @ ''       '' @ prog @ '' --version\<newline>''
                @ ''       '' @ prog @ '' --help\<newline>''
                @ ''\<newline>Arguments:\<newline>''
                @ ''  secret-id    AWS Secrets Manager secret ID or ARN\<newline>''
                @ ''  region       AWS region (optional, overrides AWS_REGION)\<newline>''
                @ ''\<newline>Options:\<newline>''
                @ ''  --version    Show version information\<newline>''
                @ ''  --help       Show this help message\<newline>''
                @ ''\<newline>Environment variables:\<newline>''
                @ ''  AWS_REGION: AWS region (can be overridden by second argument)\<newline>''
                @ ''  AWS_ACCESS_KEY_ID: AWS access key\<newline>''
                @ ''  AWS_SECRET_ACCESS_KEY: AWS secret key\<newline>''
                @ ''  AWS_SESSION_TOKEN: Session token (for temporary roles)\<newline>'' \<and>
            calls (snd (main b h args w)) = calls w)"
proof (rule conjI; rule impI)
  assume f: "flag = ''--version'' \<or> flag = ''-v''"
  with assms have m: "main b h args w = (Exit 0, ShowVersion b w)"
    by (intro main_version) auto
  show "main b h args w = (Exit 0, ShowVersion b w) \<and>
        exit_status (fst (main b h args w)) = 0 \<and>
        stdout (snd (main b h args w)) =
          stdout w @ ''aws-ssm version '' @ Version b @ ''\<newline>''
            @ (if GitCommit b \<noteq> ''unknown''
               then ''Git commit: '' @ GitCommit b @ ''\<newline>'' else [])
            @ (if BuildTime b \<noteq> ''unknown''
               then ''Built: '' @ BuildTime b @ ''\<newline>'' else [])
            @ (if Maintainer b \<noteq> []
               then ''Maintainer: ''
                      @ map (\<lambda>c. if c = CHR ''_'' then CHR '' '' else c) (Maintainer b)
                      @ ''\<newline>''
               else []) \<and>
        stderr (snd (main b h args w)) = stderr w \<and>
        calls (snd (main b h args w)) = calls w"
    unfolding m by (simp add: ReplaceAll1_def)
next
  assume f: "flag = ''--help'' \<or> flag = ''-h''"
  with assms have "main b h args w = (Exit 0, ShowUsage (args ! 0) w)"
    by (intro main_help) auto
  with assms have m: "main b h args w = (Exit 0, ShowUsage prog w)" by simp
  show "main b h args w = (Exit 0, ShowUsage prog w) \<and>
        exit_status (fst (main b h args w)) = 0 \<and>
        stdout (snd (main b h args w)) = stdout w \<and>
        stderr (snd (main b h args w)) =
          stderr w @ ''Usage: '' @ prog @ '' <secret-id> [region]\<newline>''
            @ ''       '' @ prog @ '' --version\<newline>''
            @ ''       '' @ prog @ '' --help\<newline>''
            @ ''\<newline>Arguments:\<newline>''
            @ ''  secret-id    AWS Secrets Manager secret ID or ARN\<newline>''
            @ ''  region       AWS region (optional, overrides AWS_REGION)\<newline>''
            @ ''\<newline>Options:\<newline>''
            @ ''  --version    Show version information\<newline>''
            @ ''  --help       Show this help message\<newline>''
            @ ''\<newline>Environment variables:\<newline>''
            @ ''  AWS_REGION: AWS region (can be overridden by second argument)\<newline>''
            @ ''  AWS_ACCESS_KEY_ID: AWS access key\<newline>''
            @ ''  AWS_SECRET_ACCESS_KEY: AWS secret key\<newline>''
            @ ''  AWS_SESSION_TOKEN: Session token (for temporary roles)\<newline>'' \<and>
        calls (snd (main b h args w)) = calls w"
    unfolding m by (simp add: concat_usage_lines)
qed

theorem informational_flags_exit_0_witness:
  "exit_status (fst (main build_dev (mock_host [] (mock_value ''my-secret-value''))
     [''aws-ssm'', ''--version''] world0)) = 0 \<and>
   stdout (snd (main build_dev (mock_host [] (mock_value ''my-secret-value''))
                  [''aws-ssm'', ''--version''] world0)) =
     ''aws-ssm version dev\<newline>Maintainer: Nicolas HYPOLITE\<newline>'' \<and>
   calls (snd (main build_dev (mock_host [] (mock_value ''my-secret-value''))
                 [''aws-ssm'', ''--version''] world0)) = [] \<and>
   exit_status (fst (main build_dev (mock_host [] (mock_value ''my-secret-value''))
     [''aws-ssm'', ''-h'', ''x''] world0)) = 0 \<and>
   stdout (snd (main build_dev (mock_host [] (mock_value ''my-secret-value''))
                  [''aws-ssm'', ''-h'', ''x''] world0)) = [] \<and>
   stderr (snd (main build_dev (mock_host [] (mock_value ''my-secret-value''))
                  [''aws-ssm'', ''-h'', ''x''] world0)) =
     ''Usage: aws-ssm <secret-id> [region]\<newline>       aws-ssm --version\<newline>       aws-ssm --help\<newline>\<newline>Arguments:\<newline>  secret-id    AWS Secrets Manager secret ID or ARN\<newline>  region       AWS region (optional, overrides AWS_REGION)\<newline>\<newline>Options:\<newline>  --version    Show version information\<newline>  --help       Show this help message\<newline>\<newline>Environment variables:\<newline>  AWS_REGION: AWS region (can be overridden by second argument)\<newline>  AWS_ACCESS_KEY_ID: AWS access key\<newline>  AWS_SECRET_ACCESS_KEY: AWS secret key\<newline>  AWS_SESSION_TOKEN: Session token (for temporary roles)\<newline>'' \<and>
   calls (snd (main build_dev (mock_host [] (mock_value ''my-secret-value''))
                 [''aws-ssm'', ''-h'', ''x''] world0)) = []"
  using informational_flags_exit_0 [of "[''aws-ssm'', ''--version'']" "''aws-ssm''"
      "''--version''" "[]" build_dev "mock_host [] (mock_value ''my-secret-value'')" world0]
    informational_flags_exit_0 [of "[''aws-ssm'', ''-h'', ''x'']" "''aws-ssm''" "''-h''"
      "[''x'']" build_dev "mock_host [] (mock_value ''my-secret-value'')" world0]
  by (simp add: world0_def build_dev_def usage_lines_def ReplaceAll1_def)

text \<open>
  C6 (as amended). \<open>GetSecret\<close> calls the client exactly once, with the secret
  identifier of its configuration, and writes nothing. When the client returns an
  error, \<open>GetSecret\<close> fails with an error that wraps it, with the message
  \<^verbatim>\<open>failed to get secret value: \<close> followed by the cause; when the response carries no
  secret string (\<^verbatim>\<open>nil\<close>), it fails with \<^verbatim>\<open>secret does not contain a string value\<close>; the
  two messages differ whatever the cause is. A secret string that is present is
  returned as it is, the empty string included.
\<close>

theorem GetSecret_one_call:
  "calls (snd (GetSecret app w)) = calls w @ [EvGetSecretValue (SecretID (Config app))] \<and>
   stdout (snd (GetSecret app w)) = stdout w \<and>
   (\<forall>result e. Client app \<lparr>SecretId = Some (SecretID (Config app))\<rparr> = (result, Some e) \<longrightarrow>
      fst (GetSecret app w) = Return (Inl (Wrap ''failed to get secret value: '' e)) \<and>
      Unwrap (Wrap ''failed to get secret value: '' e) = Some e \<and>
      Error (Wrap ''failed to get secret value: '' e) = ''failed to get secret value: '' @ Error e \<and>
      Error (Wrap ''failed to get secret value: '' e) \<noteq> ''secret does not contain a string value'') \<and>
   (\<forall>out. Client app \<lparr>SecretId = Some (SecretID (Config app))\<rparr> = (Some out, None) \<and>
      SecretString out = None \<longrightarrow>
      fst (GetSecret app w) = Return (Inl (New ''secret does not contain a string value''))) \<and>
   (\<forall>out s. Client app \<lparr>SecretId = Some (SecretID (Config app))\<rparr> = (Some out, None) \<and>
      SecretString out = Some s \<longrightarrow>
      fst (GetSecret app w) = Return (Inr s))"
  by (auto simp: GetSecret_fields GetSecret_result split: option.split)

theorem GetSecret_one_call_witness:
  "calls (snd (GetSecret \<lparr>Client = mock_error (New ''context deadline exceeded''),
                          Config = \<lparr>SecretID = ''error-test-secret'', Region = ''us-east-1''\<rparr>\<rparr>
                 world0)) = [EvGetSecretValue ''error-test-secret''] \<and>
   fst (GetSecret \<lparr>Client = mock_error (New ''context deadline exceeded''),
                   Config = \<lparr>SecretID = ''error-test-secret'', Region = ''us-east-1''\<rparr>\<rparr>
          world0) =
     Return (Inl (Wrap ''failed to get secret value: '' (New ''context deadline exceeded''))) \<and>
   Error (Wrap ''failed to get secret value: '' (New ''context deadline exceeded'')) =
     ''failed to get secret value: context deadline exceeded'' \<and>
   fst (GetSecret \<lparr>Client = mock_nil_string,
                   Config = \<lparr>SecretID = ''binary-secret'', Region = ''us-east-1''\<rparr>\<rparr> world0) =
     Return (Inl (New ''secret does not contain a string value'')) \<and>
   fst (GetSecret \<lparr>Client = mock_value ''my-secret-value'',
                   Config = \<lparr>SecretID = ''my-secret'', Region = ''us-east-1''\<rparr>\<rparr> world0) =
     Return (Inr ''my-secret-value'')"
  using GetSecret_one_call [of "\<lparr>Client = mock_error (New ''context deadline exceeded''),
      Config = \<lparr>SecretID = ''error-test-secret'', Region = ''us-east-1''\<rparr>\<rparr>" world0]
    GetSecret_one_call [of "\<lparr>Client = mock_nil_string,
      Config = \<lparr>SecretID = ''binary-secret'', Region = ''us-east-1''\<rparr>\<rparr>" world0]
    GetSecret_one_call [of "\<lparr>Client = mock_value ''my-secret-value'',
      Config = \<lparr>SecretID = ''my-secret'', Region = ''us-east-1''\<rparr>\<rparr>" world0]
  by (simp add: world0_def mock_error_def mock_nil_string_def mock_value_def)

text \<open>
  An empty secret string is no failure: for a client whose response carries the empty
  string, \<open>GetSecret\<close> returns the empty string and no error.
\<close>

theorem GetSecret_empty_string_counterexample:
  "fst (GetSecret \<lparr>Client = mock_value [],
                   Config = \<lparr>SecretID = ''empty-secret'', Region = ''us-east-1''\<rparr>\<rparr> world0) =
     Return (Inr [])"
  by (simp add: GetSecret_def mock_value_def)




text \<open>
  C8. When \<open>ParseArgs\<close> returns a configuration, the SDK gives a client for its region
  and the client answers with a secret string \<open>V\<close>, \<open>main\<close> returns (status 0) and
  standard output has received exactly the bytes of \<open>V\<close>: nothing before them, nothing
  after them, no newline added, whatever \<^verbatim>\<open>json.Unmarshal\<close> says about \<open>V\<close>. Standard
  error receives nothing. The fetch gives \<open>V\<close> and the formatter leaves it unchanged.
\<close>

theorem main_prints_secret:
  assumes "fst (ParseArgs b (Environ h) args w) = Return (Inr cfg)"
      and "LoadDefaultConfig h (Region cfg) = Inr awsCfg"
      and "NewFromConfig h awsCfg \<lparr>SecretId = Some (SecretID cfg)\<rparr> = (Some out, None)"
      and "SecretString out = Some V"
  shows "fst (main b h args w) = Return () \<and>
         exit_status (fst (main b h args w)) = 0 \<and>
         stdout (snd (main b h args w)) = stdout w @ V \<and>
         stderr (snd (main b h args w)) = stderr w \<and>
         fst (GetSecret \<lparr>Client = NewFromConfig h awsCfg, Config = cfg\<rparr> w) = Return (Inr V) \<and>
         FormatOutput (Unmarshal h) V = V"
  using main_success [OF assms] assms(3,4)
  by (simp add: GetSecret_result FormatOutput_def split: option.split)

theorem main_prints_secret_witness:
  "fst (ParseArgs build_dev
          (Environ (mock_host [(''AWS_REGION'', ''us-east-1'')] (mock_value ''my-secret-value'')))
          [''prog'', ''my-secret''] world0) =
     Return (Inr \<lparr>SecretID = ''my-secret'', Region = ''us-east-1''\<rparr>) \<and>
   main build_dev (mock_host [(''AWS_REGION'', ''us-east-1'')] (mock_value ''my-secret-value''))
     [''prog'', ''my-secret''] world0 =
     (Return (),
      \<lparr>stdout = ''my-secret-value'', stderr = [],
       calls = [EvLoadDefaultConfig ''us-east-1'', EvGetSecretValue ''my-secret'']\<rparr>) \<and>
   exit_status (fst (main build_dev
      (mock_host [(''AWS_REGION'', ''us-east-1'')] (mock_value ''my-secret-value''))
      [''prog'', ''my-secret''] world0)) = 0"
  using main_prints_secret [where b = build_dev
      and h = "mock_host [(''AWS_REGION'', ''us-east-1'')] (mock_value ''my-secret-value'')"
      and args = "[''prog'', ''my-secret'']" and w = world0
      and cfg = "\<lparr>SecretID = ''my-secret'', Region = ''us-east-1''\<rparr>"
      and awsCfg = "()" and out = "\<lparr>SecretString = Some ''my-secret-value''\<rparr>"
      and V = "''my-secret-value''"]
  by (simp add: ParseArgs_def Getenv_def main_def NewApp_def GetSecret_def mock_host_def
      mock_value_def world0_def Let_def FormatOutput_def Print_def unmarshal_fails_def)

text \<open>
  C9 (as amended). For every invocation whose token after the program name is not one of
  the flags \<^verbatim>\<open>--version\<close>, \<^verbatim>\<open>-v\<close>, \<^verbatim>\<open>--help\<close>, \<^verbatim>\<open>-h\<close>: either the process ends with
  status 0 and standard output has received the whole secret string that the client
  returned, or the process ends with a non-zero status and standard output has received
  nothing. In particular, when the client returns an error or a response without a
  secret string, the status is 1 and standard output has received nothing.
\<close>

theorem main_all_or_nothing:
  assumes "\<not> (2 \<le> length args \<and> args ! 1 \<in> {''--version'', ''-v'', ''--help'', ''-h''})"
  shows "((exit_status (fst (main b h args w)) = 0 \<and>
           (\<exists>cfg awsCfg out V.
              fst (ParseArgs b (Environ h) args w) = Return (Inr cfg) \<and>
              LoadDefaultConfig h (Region cfg) = Inr awsCfg \<and>
              NewFromConfig h awsCfg \<lparr>SecretId = Some (SecretID cfg)\<rparr> = (Some out, None) \<and>
              SecretString out = Some V \<and>
              stdout (snd (main b h args w)) = stdout w @ V))
          \<or> (exit_status (fst (main b h args w)) \<noteq> 0 \<and>
              stdout (snd (main b h args w)) = stdout w)) \<and>
         (\<forall>cfg awsCfg result err.
            fst (ParseArgs b (Environ h) args w) = Return (Inr cfg) \<and>
            LoadDefaultConfig h (Region cfg) = Inr awsCfg \<and>
            NewFromConfig h awsCfg \<lparr>SecretId = Some (SecretID cfg)\<rparr> = (result, err) \<and>
            (err \<noteq> None \<or> (\<exists>out. result = Some out \<and> SecretString out = None)) \<longrightarrow>
            exit_status (fst (main b h args w)) = 1 \<and>
            stdout (snd (main b h args w)) = stdout w)"
proof (rule conjI)
  show "(exit_status (fst (main b h args w)) = 0 \<and>
           (\<exists>cfg awsCfg out V.
              fst (ParseArgs b (Environ h) args w) = Return (Inr cfg) \<and>
              LoadDefaultConfig h (Region cfg) = Inr awsCfg \<and>
              NewFromConfig h awsCfg \<lparr>SecretId = Some (SecretID cfg)\<rparr> = (Some out, None) \<and>
              SecretString out = Some V \<and>
              stdout (snd (main b h args w)) = stdout w @ V))
          \<or> (exit_status (fst (main b h args w)) \<noteq> 0 \<and>
              stdout (snd (main b h args w)) = stdout w)"
    by (rule main_dichotomy [OF assms])
next
  show "\<forall>cfg awsCfg result err.
            fst (ParseArgs b (Environ h) args w) = Return (Inr cfg) \<and>
            LoadDefaultConfig h (Region cfg) = Inr awsCfg \<and>
            NewFromConfig h awsCfg \<lparr>SecretId = Some (SecretID cfg)\<rparr> = (result, err) \<and>
            (err \<noteq> None \<or> (\<exists>out. result = Some out \<and> SecretString out = None)) \<longrightarrow>
            exit_status (fst (main b h args w)) = 1 \<and>
            stdout (snd (main b h args w)) = stdout w"
    using main_fetch_failed [of b h args w] by blast
qed

theorem main_all_or_nothing_witness:
  "\<not> (2 \<le> length [''prog'', ''json-secret'', ''eu-west-1''] \<and>
       [''prog'', ''json-secret'', ''eu-west-1''] ! 1 \<in> {''--version'', ''-v'', ''--help'', ''-h''}) \<and>
   exit_status (fst (main build_dev (mock_host [] (mock_value ''{\"username\":\"admin\"}''))
      [''prog'', ''json-secret'', ''eu-west-1''] world0)) = 0 \<and>
   stdout (snd (main build_dev (mock_host [] (mock_value ''{\"username\":\"admin\"}''))
      [''prog'', ''json-secret'', ''eu-west-1''] world0)) = ''{\"username\":\"admin\"}'' \<and>
   exit_status (fst (main build_dev (mock_host [] mock_nil_string)
      [''prog'', ''json-secret'', ''eu-west-1''] world0)) = 1 \<and>
   stdout (snd (main build_dev (mock_host [] mock_nil_string)
      [''prog'', ''json-secret'', ''eu-west-1''] world0)) = [] \<and>
   exit_status (fst (main build_dev (mock_host [] (mock_error (New ''context deadline exceeded'')))
      [''prog'', ''json-secret'', ''eu-west-1''] world0)) = 1 \<and>
   stdout (snd (main build_dev (mock_host [] (mock_error (New ''context deadline exceeded'')))
      [''prog'', ''json-secret'', ''eu-west-1''] world0)) = []"
  using main_all_or_nothing [of "[''prog'', ''json-secret'', ''eu-west-1'']" build_dev
      "mock_host [] (mock_value ''{\"username\":\"admin\"}'')" world0]
    main_all_or_nothing [of "[''prog'', ''json-secret'', ''eu-west-1'']" build_dev
      "mock_host [] mock_nil_string" world0]
    main_all_or_nothing [of "[''prog'', ''json-secret'', ''eu-west-1'']" build_dev
      "mock_host [] (mock_error (New ''context deadline exceeded''))" world0]
  by (simp add: ParseArgs_def Getenv_def main_def NewApp_def GetSecret_def mock_host_def
      mock_value_def mock_nil_string_def mock_error_def world0_def Let_def FormatOutput_def
      Print_def Fatalf_def unmarshal_fails_def)

text \<open>
  With a flag the dichotomy fails: \<^verbatim>\<open>aws-ssm --version\<close> ends with status 0 after
  writing the version message, not a secret, to standard output, without any call to
  the SDK.
\<close>

theorem main_all_or_nothing_counterexample:
  "exit_status (fst (main build_dev (mock_host [] (mock_value ''my-secret-value''))
      [''aws-ssm'', ''--version''] world0)) = 0 \<and>
   stdout (snd (main build_dev (mock_host [] (mock_value ''my-secret-value''))
      [''aws-ssm'', ''--version''] world0)) =
     ''aws-ssm version dev\<newline>Maintainer: Nicolas HYPOLITE\<newline>'' \<and>
   calls (snd (main build_dev (mock_host [] (mock_value ''my-secret-value''))
      [''aws-ssm'', ''--version''] world0)) = []"
  by (simp add: main_version build_dev_def ReplaceAll1_def world0_def)

text \<open>
  C10. \<open>ParseArgs\<close> reads no token after the third: on an argument vector with more than
  three tokens it does exactly what it does on the first three tokens alone. It returns
  the same configuration or the same error, or exits the same way, with the same output.
\<close>

theorem ParseArgs_ignores_extra:
  "3 < length args \<Longrightarrow> ParseArgs b environ args w = ParseArgs b environ (take 3 args) w"
  by (simp add: ParseArgs_def)

theorem ParseArgs_ignores_extra_witness:
  "3 < length [''aws-ssm'', ''my-secret'', ''eu-west-1'', ''extra''] \<and>
   ParseArgs build_dev [] [''aws-ssm'', ''my-secret'', ''eu-west-1'', ''extra''] world0 =
     ParseArgs build_dev [] (take 3 [''aws-ssm'', ''my-secret'', ''eu-west-1'', ''extra'']) world0 \<and>
   ParseArgs build_dev [] [''aws-ssm'', ''my-secret'', ''eu-west-1'', ''extra''] world0 =
     (Return (Inr \<lparr>SecretID = ''my-secret'', Region = ''eu-west-1''\<rparr>), world0)"
  using ParseArgs_ignores_extra [of "[''aws-ssm'', ''my-secret'', ''eu-west-1'', ''extra'']"
      build_dev "[]" world0]
  by (simp add: ParseArgs_def)

end
